theory Spec2Isabelle
  imports Complex_Main "HOL-Library.Sublist"
begin

section \<open>Data model\<close>

text \<open>
  Coordinates are Python floats. The program never computes with them: it passes them
  on and tests their truthiness (\<open>x != 0.0\<close>), so a float is modelled by a real number,
  with \<open>0.0\<close> and \<open>-0.0\<close> both the real \<open>0\<close>.
\<close>

type_synonym pyfloat = real

text \<open>
  The exceptions the program tells apart. \<open>GeocoderServiceError\<close> stands for the geopy
  class and its subclasses other than \<open>GeocoderTimedOut\<close>; \<open>OverflowError\<close> is what
  \<open>time.sleep\<close> raises on a delay too long for it; \<open>PyException\<close> is any other subclass
  of Python's \<open>Exception\<close>, with its message; \<open>PyBaseException\<close> is an exception outside
  \<open>Exception\<close> (\<open>KeyboardInterrupt\<close>, \<open>SystemExit\<close>).
\<close>

datatype exn =
    GeocoderTimedOut
  | GeocoderServiceError
  | OverflowError
  | PyException string
  | PyBaseException string

text \<open>The clause \<open>except (GeocoderTimedOut, GeocoderServiceError)\<close> of \<open>geocode_address\<close>.\<close>

fun caught :: "exn \<Rightarrow> bool" where
  "caught GeocoderTimedOut = True"
| "caught GeocoderServiceError = True"
| "caught OverflowError = False"
| "caught (PyException m) = False"
| "caught (PyBaseException m) = False"

text \<open>The clause \<open>except Exception\<close> of \<open>get_florida_counties\<close> and \<open>main\<close>.\<close>

fun is_Exception :: "exn \<Rightarrow> bool" where
  "is_Exception (PyBaseException m) = False"
| "is_Exception e = True"

text \<open>
  What one call \<open>geolocator.geocode(address, timeout=10)\<close> does: it returns a location
  (a truthy object with a latitude and a longitude), returns \<open>None\<close>, or raises.
\<close>

datatype response =
    Located pyfloat pyfloat
  | Not_found
  | Raises exn

text \<open>
  The geocoding service is outside the program. It is a parameter: the answer to the
  \<open>n\<close>-th call the program makes (counting from 0) for a given address.
\<close>

type_synonym geolocator = "nat \<Rightarrow> string \<Rightarrow> response"

text \<open>The console lines that report an outcome; progress lines and banners are not recorded.\<close>

datatype report =
    Failed_to_geocode string   \<comment> \<open>\<open>Failed to geocode {address}: {e}\<close> in \<open>geocode_address\<close>\<close>
  | Found string               \<comment> \<open>the check mark line of \<open>geocode_branches\<close>, by branch name\<close>
  | Branch_failed string       \<comment> \<open>the cross line of \<open>geocode_branches\<close>, by address\<close>
  | Error_downloading          \<comment> \<open>\<open>Error downloading counties: {e}\<close>\<close>
  | Alternative_failed         \<comment> \<open>\<open>Alternative method also failed: {e2}\<close>\<close>
  | No_branches                \<comment> \<open>\<open>ERROR: No branches were successfully geocoded!\<close>\<close>
  | Map_created                \<comment> \<open>\<open>Map successfully created: ...\<close>\<close>
  | Error_banner               \<comment> \<open>\<open>ERROR: {e}\<close> and the troubleshooting tips of \<open>main\<close>\<close>

text \<open>The effects of the program, in the order they happen.\<close>

datatype event =
    Lookup string       \<comment> \<open>a call of \<open>geolocator.geocode\<close> on an address\<close>
  | Sleep nat           \<comment> \<open>\<open>time.sleep\<close> for that many seconds\<close>
  | Print report
  | Download            \<comment> \<open>the primary download of the county shapefile is attempted\<close>
  | Create_map          \<comment> \<open>\<open>create_map\<close> is invoked\<close>
  | Save string         \<comment> \<open>\<open>florida_map.save\<close> is invoked on that file name\<close>

record world =
  calls :: nat            \<comment> \<open>how many geocoding calls have been made\<close>
  events :: "event list"  \<comment> \<open>what has happened, oldest first\<close>

definition emit :: "event \<Rightarrow> world \<Rightarrow> world" where
  "emit e w = w\<lparr>events := events w @ [e]\<rparr>"

text \<open>
  \<open>time.sleep(n)\<close> takes its delay as a count of nanoseconds in a signed 64-bit integer:
  on a whole number of seconds above \<open>max_sleep\<close> it raises \<open>OverflowError\<close> at once, and
  sleeps otherwise. \<open>sleep n w\<close> is the world after a call that returned, \<open>time_sleep\<close> is
  the call. The calls \<open>time.sleep(1)\<close> of the program always return, and are written
  \<open>sleep 1\<close>.
\<close>

definition sleep :: "nat \<Rightarrow> world \<Rightarrow> world" where
  "sleep n w = emit (Sleep n) w"

definition max_sleep :: nat where
  "max_sleep = (2 ^ 63 - 1) div 10 ^ 9"

definition time_sleep :: "nat \<Rightarrow> world \<Rightarrow> exn + world" where
  "time_sleep n w = (if n \<le> max_sleep then Inr (sleep n w) else Inl OverflowError)"

definition lookup :: "string \<Rightarrow> world \<Rightarrow> world" where
  "lookup address w = (emit (Lookup address) w)\<lparr>calls := Suc (calls w)\<rparr>"

record branch =
  name :: string
  address :: string

text \<open>
  An enriched entry is a Python dict whose coordinates are whatever \<open>geocode_address\<close>
  returned, so the fields can hold \<open>None\<close>.
\<close>

record located = branch +
  latitude :: "pyfloat option"
  longitude :: "pyfloat option"

section \<open>The geocoding client\<close>

text \<open>
  \<open>geocode_address\<close>: the loop \<open>for attempt in range(max_retries)\<close>, from the iteration
  \<open>attempt\<close> on. The result is the exception that leaves the function, or the pair it
  returns. The backoff \<open>time.sleep(2 ** attempt)\<close> is inside the handler, so the
  \<open>OverflowError\<close> it raises on a delay that is too long leaves the function.
\<close>

function geocode_attempts ::
  "geolocator \<Rightarrow> string \<Rightarrow> int \<Rightarrow> nat \<Rightarrow> world
     \<Rightarrow> (exn + pyfloat option \<times> pyfloat option) \<times> world" where
  "geocode_attempts g addr max_retries attempt w =
     (if int attempt < max_retries then
        (case g (calls w) addr of
           Located lat lon \<Rightarrow> (Inr (Some lat, Some lon), lookup addr w)
         | Not_found \<Rightarrow>
             geocode_attempts g addr max_retries (Suc attempt) (sleep 1 (lookup addr w))
         | Raises e \<Rightarrow>
             if caught e then
               if int attempt < max_retries - 1 then
                 (case time_sleep (2 ^ attempt) (lookup addr w) of
                    Inl overflow \<Rightarrow> (Inl overflow, lookup addr w)
                  | Inr w' \<Rightarrow> geocode_attempts g addr max_retries (Suc attempt) w')
               else (Inr (None, None), emit (Print (Failed_to_geocode addr)) (lookup addr w))
             else (Inl e, lookup addr w))
      else (Inr (None, None), w))"
  by pat_completeness auto
termination
  by (relation "measure (\<lambda>(g, addr, max_retries, attempt, w). nat (max_retries - int attempt))") auto

declare geocode_attempts.simps [simp del]

definition geocode_address ::
  "geolocator \<Rightarrow> string \<Rightarrow> int \<Rightarrow> world
     \<Rightarrow> (exn + pyfloat option \<times> pyfloat option) \<times> world" where
  "geocode_address g addr max_retries w = geocode_attempts g addr max_retries 0 w"

section \<open>The branch registry\<close>

definition get_fortiline_branches :: "branch list" where
  "get_fortiline_branches =
    [\<lparr>name = ''Miami'', address = ''14202 SW 142nd Ave, Miami, FL 33186''\<rparr>,
     \<lparr>name = ''Pompano Beach'', address = ''2250 N Andrews Ave, Pompano Beach, FL 33069''\<rparr>,
     \<lparr>name = ''Riviera Beach'', address = ''6759 White Dr, Riviera Beach, FL 33407''\<rparr>,
     \<lparr>name = ''Fort Pierce'', address = ''3904 Selvitz Rd, Fort Pierce, FL 34982''\<rparr>,
     \<lparr>name = ''Fort Myers'', address = ''4810 Laredo Ave, Fort Myers, FL 33905''\<rparr>,
     \<lparr>name = ''Sarasota'', address = ''2074 47th Street, Sarasota, FL 34234''\<rparr>,
     \<lparr>name = ''Tampa'', address = ''1031 S 86th Street, Tampa, FL 33619''\<rparr>,
     \<lparr>name = ''Dundee'', address = ''225 W Frederick Ave, Dundee, FL 33838''\<rparr>,
     \<lparr>name = ''Kissimmee'', address = ''731 Duncan Ave, Kissimmee, FL 34744''\<rparr>,
     \<lparr>name = ''Apopka'', address = ''3636 Fudge Rd, Apopka, FL 32703''\<rparr>,
     \<lparr>name = ''Sanford'', address = ''2291 West Airport Blvd, Sanford, FL 32771''\<rparr>,
     \<lparr>name = ''Port Orange'', address = ''700 Oak Heights Ct, Port Orange, FL 32129''\<rparr>,
     \<lparr>name = ''Ocala'', address = ''3518 SW 13th St, Ocala, FL 34474''\<rparr>,
     \<lparr>name = ''St Augustine'', address = ''3780 Deerpark Blvd, St Augustine, Fl 32033''\<rparr>,
     \<lparr>name = ''Jacksonville'', address = ''6982 Highway Ave, Jacksonville, FL 32254''\<rparr>,
     \<lparr>name = ''Lake City'', address = ''3847 US-441, Lake City, FL 32025''\<rparr>,
     \<lparr>name = ''Panama City'', address = ''1417 Transmitter Rd, Fl 32401''\<rparr>]"

section \<open>Batch geocoding\<close>

text \<open>Truthiness of a coordinate as \<open>if lat and lon\<close> tests it: \<open>None\<close> and \<open>0.0\<close> are false.\<close>

fun truthy :: "pyfloat option \<Rightarrow> bool" where
  "truthy None = False"
| "truthy (Some x) = (x \<noteq> 0)"

definition enrich :: "branch \<Rightarrow> pyfloat option \<Rightarrow> pyfloat option \<Rightarrow> located" where
  "enrich b lat lon =
     \<lparr>name = name b, address = address b, latitude = lat, longitude = lon\<rparr>"

text \<open>
  The loop of \<open>geocode_branches\<close> over the branches still to do, with \<open>branch_locations\<close>
  as built so far. \<open>geocode_address\<close> is called with its default \<open>max_retries=3\<close>; an
  exception that leaves it leaves \<open>geocode_branches\<close> too, which has no handler.
\<close>

fun geocode_branches_loop ::
  "geolocator \<Rightarrow> branch list \<Rightarrow> located list \<Rightarrow> world \<Rightarrow> (exn + located list) \<times> world" where
  "geocode_branches_loop g [] branch_locations w = (Inr branch_locations, w)"
| "geocode_branches_loop g (b # bs) branch_locations w =
     (case geocode_address g (address b) 3 w of
        (Inl e, w') \<Rightarrow> (Inl e, w')
      | (Inr (lat, lon), w') \<Rightarrow>
          if truthy lat \<and> truthy lon then
            geocode_branches_loop g bs (branch_locations @ [enrich b lat lon])
              (sleep 1 (emit (Print (Found (name b))) w'))
          else
            geocode_branches_loop g bs branch_locations
              (sleep 1 (emit (Print (Branch_failed (address b))) w')))"

definition geocode_branches ::
  "geolocator \<Rightarrow> branch list \<Rightarrow> world \<Rightarrow> (exn + located list) \<times> world" where
  "geocode_branches g branches w = geocode_branches_loop g branches [] w"

section \<open>Boundary provider, renderer and orchestrator\<close>

text \<open>
  The county boundaries are a GeoDataFrame; of it the model keeps the county names. The
  body of the first \<open>try\<close> of \<open>get_florida_counties\<close> is library calls only (download,
  read, filter, reproject), so its outcome is a parameter: the Florida counties, or the
  exception one of the calls raised.
\<close>

type_synonym counties = "string list"

definition get_florida_counties :: "exn + counties \<Rightarrow> world \<Rightarrow> (exn + counties) \<times> world" where
  "get_florida_counties download w =
     (case download of
        Inr florida_counties \<Rightarrow> (Inr florida_counties, emit Download w)
      | Inl e \<Rightarrow>
          if is_Exception e then
            (Inl (PyException
                ''Primary download method failed. Please check your internet connection.''),
             emit (Print Alternative_failed) (emit (Print Error_downloading) (emit Download w)))
          else (Inl e, emit Download w))"

record folium_map =
  layer :: counties
  markers :: "located list"

text \<open>
  \<open>create_map\<close> and \<open>florida_map.save\<close> call the mapping library, which may raise; whether
  it does is a parameter.
\<close>

definition create_map ::
  "exn option \<Rightarrow> counties \<Rightarrow> located list \<Rightarrow> world \<Rightarrow> (exn + folium_map) \<times> world" where
  "create_map folium_error florida_counties branch_locations w =
     (case folium_error of
        Some e \<Rightarrow> (Inl e, emit Create_map w)
      | None \<Rightarrow> (Inr \<lparr>layer = florida_counties, markers = branch_locations\<rparr>, emit Create_map w))"

definition save :: "exn option \<Rightarrow> folium_map \<Rightarrow> string \<Rightarrow> world \<Rightarrow> (exn + unit) \<times> world" where
  "save save_error florida_map output_file w =
     (case save_error of
        Some e \<Rightarrow> (Inl e, emit (Save output_file) w)
      | None \<Rightarrow> (Inr (), emit (Save output_file) w))"

record env =
  geolocator :: geolocator
  download :: "exn + counties"
  folium_error :: "exn option"
  save_error :: "exn option"

text \<open>The body of the \<open>try\<close> of \<open>main\<close>.\<close>

definition main_try :: "env \<Rightarrow> world \<Rightarrow> (exn + unit) \<times> world" where
  "main_try env w =
     (case get_florida_counties (download env) w of
        (Inl e, w1) \<Rightarrow> (Inl e, w1)
      | (Inr florida_counties, w1) \<Rightarrow>
          (case geocode_branches (geolocator env) get_fortiline_branches w1 of
             (Inl e, w2) \<Rightarrow> (Inl e, w2)
           | (Inr branch_locations, w2) \<Rightarrow>
               if branch_locations = [] then (Inr (), emit (Print No_branches) w2)
               else
                 (case create_map (folium_error env) florida_counties branch_locations w2 of
                    (Inl e, w3) \<Rightarrow> (Inl e, w3)
                  | (Inr florida_map, w3) \<Rightarrow>
                      (case save (save_error env) florida_map ''fortiline_florida_map.html'' w3 of
                         (Inl e, w4) \<Rightarrow> (Inl e, w4)
                       | (Inr u, w4) \<Rightarrow> (Inr (), emit (Print Map_created) w4)))))"

text \<open>
  \<open>main\<close>: \<open>Inr ()\<close> is a normal return, \<open>Inl e\<close> the exception that leaves \<open>main\<close>. The
  handler \<open>except Exception\<close> prints and raises the exception again.
\<close>

definition main :: "env \<Rightarrow> world \<Rightarrow> (exn + unit) \<times> world" where
  "main env w =
     (case main_try env w of
        (Inl e, w') \<Rightarrow>
          if is_Exception e then (Inl e, emit (Print Error_banner) w') else (Inl e, w')
      | (Inr u, w') \<Rightarrow> (Inr u, w'))"

definition start :: world where
  "start = \<lparr>calls = 0, events = []\<rparr>"

text \<open>What a list of events says about delays and calls.\<close>

fun sleeps :: "event list \<Rightarrow> nat list" where
  "sleeps [] = []"
| "sleeps (Sleep n # es) = n # sleeps es"
| "sleeps (e # es) = sleeps es"

fun lookups :: "event list \<Rightarrow> string list" where
  "lookups [] = []"
| "lookups (Lookup a # es) = a # lookups es"
| "lookups (e # es) = lookups es"

text \<open>The world after \<open>k\<close> more geocoding calls and the events \<open>es\<close>.\<close>

definition advance :: "nat \<Rightarrow> event list \<Rightarrow> world \<Rightarrow> world" where
  "advance k es w = w\<lparr>calls := calls w + k, events := events w @ es\<rparr>"

text \<open>The events that happened between the world \<open>w\<close> and the later world \<open>w'\<close>.\<close>

definition new_events :: "world \<Rightarrow> world \<Rightarrow> event list" where
  "new_events w w' = drop (length (events w)) (events w')"

text \<open>
  The events of \<open>k\<close> iterations of the retry loop, the first of them the iteration
  \<open>attempt\<close>, in each of which the lookup raises a caught error and the loop backs off.
\<close>

definition backoff :: "string \<Rightarrow> nat \<Rightarrow> nat \<Rightarrow> event list" where
  "backoff a attempt k = concat (map (\<lambda>i. [Lookup a, Sleep (2 ^ i)]) [attempt..<attempt + k])"

text \<open>The events of the renderer and of writing the map.\<close>

fun rendering :: "event \<Rightarrow> bool" where
  "rendering Create_map = True"
| "rendering (Save f) = True"
| "rendering e = False"

text \<open>The input branch an enriched entry stands for: its name and address.\<close>

definition branch_of :: "located \<Rightarrow> branch" where
  "branch_of x = \<lparr>name = name x, address = address x\<rparr>"

text \<open>
  What \<open>geocode_address\<close> returned for each branch during a run of \<open>geocode_branches\<close>
  from the world \<open>w\<close>, in the order of the calls; the list stops where an exception
  leaves the run.
\<close>

fun geocoding_results ::
  "geolocator \<Rightarrow> branch list \<Rightarrow> world \<Rightarrow> (branch \<times> pyfloat option \<times> pyfloat option) list" where
  "geocoding_results g [] w = []"
| "geocoding_results g (b # bs) w =
     (case geocode_address g (address b) 3 w of
        (Inl e, w') \<Rightarrow> []
      | (Inr (lat, lon), w') \<Rightarrow>
          (b, lat, lon) #
          geocoding_results g bs
            (sleep 1 (emit (Print (if truthy lat \<and> truthy lon then Found (name b)
                                   else Branch_failed (address b))) w')))"

text \<open>Inputs on which the theorems below are tried.\<close>

definition miami :: branch where
  "miami = \<lparr>name = ''Miami'', address = ''14202 SW 142nd Ave, Miami, FL 33186''\<rparr>"

definition nowhere :: branch where
  "nowhere = \<lparr>name = ''Nowhere'', address = ''1 No Such Road''\<rparr>"

text \<open>A service that finds the Miami branch and times out on every other address.\<close>

definition miami_only :: geolocator where
  "miami_only n a =
     (if a = ''14202 SW 142nd Ave, Miami, FL 33186'' then Located 25.65 (-80.43)
      else Raises GeocoderTimedOut)"


text \<open>
  A branch is kept when both coordinates returned for it pass the test \<open>if lat and lon\<close>;
  \<open>entry\<close> is the enriched entry built from a result.
\<close>

definition kept :: "branch \<times> pyfloat option \<times> pyfloat option \<Rightarrow> bool" where
  "kept r = (case r of (b, lat, lon) \<Rightarrow> truthy lat \<and> truthy lon)"

definition entry :: "branch \<times> pyfloat option \<times> pyfloat option \<Rightarrow> located" where
  "entry r = (case r of (b, lat, lon) \<Rightarrow> enrich b lat lon)"


text \<open>A service that locates every address on the equator.\<close>

definition zero_lat :: geolocator where
  "zero_lat n a = Located 0 (-80.43)"

text \<open>
  Runs of the whole program: no address is found; every address is found; the download
  of the boundaries fails.
\<close>

definition unfound :: env where
  "unfound = \<lparr>geolocator = (\<lambda>n a. Not_found), download = Inr [''Miami-Dade'', ''Broward''],
     folium_error = None, save_error = None\<rparr>"

definition found :: env where
  "found = \<lparr>geolocator = (\<lambda>n a. Located 25.65 (-80.43)),
     download = Inr [''Miami-Dade'', ''Broward''], folium_error = None, save_error = None\<rparr>"

definition offline :: env where
  "offline = \<lparr>geolocator = (\<lambda>n a. Located 25.65 (-80.43)),
     download = Inl (PyException ''ConnectionError''), folium_error = None, save_error = None\<rparr>"

section \<open>Worlds and events\<close>

lemma calls_advance: "calls (advance k es w) = calls w + k"
  by (simp add: advance_def)

lemma events_advance: "events (advance k es w) = events w @ es"
  by (simp add: advance_def)

lemma advance_advance: "advance k es (advance j fs w) = advance (j + k) (fs @ es) w"
  by (simp add: advance_def)

lemma advance_0: "advance 0 [] w = w"
  by (simp add: advance_def)

lemma lookup_advance: "lookup a w = advance 1 [Lookup a] w"
  by (simp add: lookup_def emit_def advance_def)

lemma emit_advance: "emit e w = advance 0 [e] w"
  by (simp add: emit_def advance_def)

lemma sleep_advance: "sleep n w = advance 0 [Sleep n] w"
  by (simp add: sleep_def emit_advance)

lemma new_events_advance: "new_events w (advance k es w) = es"
  by (simp add: new_events_def events_advance)

lemma time_sleep_one: "time_sleep 1 w = Inr (sleep 1 w)"
  by (simp add: time_sleep_def max_sleep_def)

lemma backoff_fits: "attempt \<le> 33 \<Longrightarrow> 2 ^ attempt \<le> max_sleep"
proof -
  assume "attempt \<le> 33"
  then have "(2::nat) ^ attempt \<le> 2 ^ 33"
    by (intro power_increasing) simp_all
  also have "(2::nat) ^ 33 \<le> max_sleep"
    by (simp add: max_sleep_def)
  finally show ?thesis .
qed




lemma backoff_0: "backoff a attempt 0 = []"
  by (simp add: backoff_def)

lemma backoff_Suc:
  "backoff a attempt (Suc k) = [Lookup a, Sleep (2 ^ attempt)] @ backoff a (Suc attempt) k"
  by (simp add: backoff_def upt_rec)



section \<open>One iteration of the retry loop\<close>

lemma attempts_done:
  "\<not> int attempt < R \<Longrightarrow> geocode_attempts g a R attempt w = (Inr (None, None), w)"
  by (subst geocode_attempts.simps) simp

lemma attempts_located:
  "int attempt < R \<Longrightarrow> g (calls w) a = Located lat lon \<Longrightarrow>
   geocode_attempts g a R attempt w = (Inr (Some lat, Some lon), advance 1 [Lookup a] w)"
  by (subst geocode_attempts.simps) (simp add: lookup_advance)

lemma attempts_not_found:
  "int attempt < R \<Longrightarrow> g (calls w) a = Not_found \<Longrightarrow>
   geocode_attempts g a R attempt w =
     geocode_attempts g a R (Suc attempt) (advance 1 [Lookup a, Sleep 1] w)"
  by (subst geocode_attempts.simps) (simp add: lookup_advance sleep_advance advance_advance)

lemma attempts_retry:
  "int attempt < R - 1 \<Longrightarrow> g (calls w) a = Raises e \<Longrightarrow> caught e \<Longrightarrow> attempt \<le> 33 \<Longrightarrow>
   geocode_attempts g a R attempt w =
     geocode_attempts g a R (Suc attempt) (advance 1 [Lookup a, Sleep (2 ^ attempt)] w)"
  by (subst geocode_attempts.simps)
    (simp add: time_sleep_def backoff_fits lookup_advance sleep_advance advance_advance)


lemma attempts_last:
  "int attempt < R \<Longrightarrow> \<not> int attempt < R - 1 \<Longrightarrow> g (calls w) a = Raises e \<Longrightarrow> caught e \<Longrightarrow>
   geocode_attempts g a R attempt w =
     (Inr (None, None), advance 1 [Lookup a, Print (Failed_to_geocode a)] w)"
  by (subst geocode_attempts.simps) (simp add: lookup_advance emit_advance advance_advance)

lemma attempts_uncaught:
  "int attempt < R \<Longrightarrow> g (calls w) a = Raises e \<Longrightarrow> \<not> caught e \<Longrightarrow>
   geocode_attempts g a R attempt w = (Inl e, advance 1 [Lookup a] w)"
  by (subst geocode_attempts.simps) (simp add: lookup_advance)

section \<open>Runs of the retry loop\<close>

lemma retry_run:
  "(\<And>i. i < k \<Longrightarrow> \<exists>e. g (calls w + i) a = Raises e \<and> caught e) \<Longrightarrow> int (attempt + k) < R \<Longrightarrow>
   attempt + k \<le> 34 \<Longrightarrow>
   geocode_attempts g a R attempt w =
     geocode_attempts g a R (attempt + k) (advance k (backoff a attempt k) w)"
proof (induction k arbitrary: attempt w)
  case 0
  then show ?case by (simp add: backoff_0 advance_0)
next
  case (Suc k)
  from Suc.prems(1)[of 0] obtain e where e: "g (calls w) a = Raises e" "caught e" by auto
  have lt: "int attempt < R - 1" using Suc.prems(2) by simp
  have fits: "attempt \<le> 33" using Suc.prems(3) by simp
  let ?w = "advance 1 [Lookup a, Sleep (2 ^ attempt)] w"
  have step: "geocode_attempts g a R attempt w = geocode_attempts g a R (Suc attempt) ?w"
    using lt e fits by (rule attempts_retry)
  have "\<And>i. i < k \<Longrightarrow> \<exists>e. g (calls ?w + i) a = Raises e \<and> caught e"
    using Suc.prems(1)[of "Suc _"] by (simp add: calls_advance)
  moreover have "int (Suc attempt + k) < R" using Suc.prems(2) by simp
  moreover have "Suc attempt + k \<le> 34" using Suc.prems(3) by simp
  ultimately have "geocode_attempts g a R (Suc attempt) ?w =
     geocode_attempts g a R (Suc attempt + k) (advance k (backoff a (Suc attempt) k) ?w)"
    by (rule Suc.IH)
  with step show ?case by (simp add: advance_advance backoff_Suc)
qed

lemma not_found_run:
  "(\<And>i. i < k \<Longrightarrow> g (calls w + i) a = Not_found) \<Longrightarrow> int (attempt + k) \<le> R \<Longrightarrow>
   geocode_attempts g a R attempt w =
     geocode_attempts g a R (attempt + k)
       (advance k (concat (replicate k [Lookup a, Sleep 1])) w)"
proof (induction k arbitrary: attempt w)
  case 0
  then show ?case by (simp add: advance_0)
next
  case (Suc k)
  from Suc.prems(1)[of 0] have e: "g (calls w) a = Not_found" by auto
  have lt: "int attempt < R" using Suc.prems(2) by simp
  let ?w = "advance 1 [Lookup a, Sleep 1] w"
  have step: "geocode_attempts g a R attempt w = geocode_attempts g a R (Suc attempt) ?w"
    using lt e by (rule attempts_not_found)
  have "\<And>i. i < k \<Longrightarrow> g (calls ?w + i) a = Not_found"
    using Suc.prems(1)[of "Suc _"] by (simp add: calls_advance)
  moreover have "int (Suc attempt + k) \<le> R" using Suc.prems(2) by simp
  ultimately have "geocode_attempts g a R (Suc attempt) ?w =
     geocode_attempts g a R (Suc attempt + k)
       (advance k (concat (replicate k [Lookup a, Sleep 1])) ?w)"
    by (rule Suc.IH)
  with step show ?case by (simp add: advance_advance)
qed


lemma all_caught_run:
  assumes fail: "\<And>i. int i < R \<Longrightarrow> \<exists>e. g (calls w + i) a = Raises e \<and> caught e"
    and pos: "0 < R" and small: "R \<le> 35"
  shows "geocode_attempts g a R 0 w =
     (Inr (None, None),
      advance (nat R) (backoff a 0 (nat R - 1) @ [Lookup a, Print (Failed_to_geocode a)]) w)"
proof -
  let ?k = "nat R - 1"
  let ?w = "advance ?k (backoff a 0 ?k) w"
  have "geocode_attempts g a R 0 w = geocode_attempts g a R (0 + ?k) ?w"
  proof (rule retry_run)
    fix i assume "i < ?k"
    then have "int i < R" by linarith
    then show "\<exists>e. g (calls w + i) a = Raises e \<and> caught e" by (rule fail)
  next
    show "int (0 + ?k) < R" using pos by linarith
  next
    show "0 + ?k \<le> 34" using small by linarith
  qed
  moreover have "int ?k < R" using pos by linarith
  moreover have "\<not> int ?k < R - 1" using pos by linarith
  moreover obtain e where "g (calls ?w) a = Raises e" "caught e"
    using fail[of ?k] pos by (auto simp: calls_advance)
  ultimately have "geocode_attempts g a R 0 w =
      (Inr (None, None), advance 1 [Lookup a, Print (Failed_to_geocode a)] ?w)"
    by (simp add: attempts_last)
  moreover have "?k + 1 = nat R" using pos by linarith
  ultimately show ?thesis by (simp add: advance_advance)
qed

section \<open>Retries exhausted by caught errors\<close>




section \<open>Backoff before a success\<close>




section \<open>An address that is not found\<close>

text \<open>
  Claim C7. When the lookup answers "not found" (returns \<open>None\<close>) on every attempt,
  each lookup is followed by a pause of 1 and by the next iteration of the loop, and
  \<open>geocode_address\<close> returns the failure pair only after \<open>R\<close> such iterations: the same
  number of lookups as when every attempt raises a caught error.
\<close>

theorem not_found_uses_retry_budget:
  assumes "\<forall>i. int i < R \<longrightarrow> g (calls w + i) a = Not_found"
  shows "fst (geocode_address g a R w) = Inr (None, None) \<and>
         calls (snd (geocode_address g a R w)) = calls w + nat R \<and>
         new_events w (snd (geocode_address g a R w)) =
           concat (replicate (nat R) [Lookup a, Sleep 1])"
proof (cases "0 \<le> R")
  case True
  let ?w = "advance (nat R) (concat (replicate (nat R) [Lookup a, Sleep 1])) w"
  have "geocode_attempts g a R 0 w = geocode_attempts g a R (0 + nat R) ?w"
    using assms True by (intro not_found_run) auto
  moreover have "\<not> int (nat R) < R" by simp
  ultimately have "geocode_address g a R w = (Inr (None, None), ?w)"
    by (simp add: geocode_address_def attempts_done)
  then show ?thesis by (simp add: calls_advance new_events_advance)
next
  case False
  then have "geocode_address g a R w = (Inr (None, None), w)"
    by (simp add: geocode_address_def attempts_done)
  with False show ?thesis by (simp add: new_events_def)
qed

text \<open>An address never found, three attempts.\<close>

theorem not_found_uses_retry_budget_witness:
  "fst (geocode_address (\<lambda>n a. Not_found) ''Atlantis'' 3 start) = Inr (None, None) \<and>
   calls (snd (geocode_address (\<lambda>n a. Not_found) ''Atlantis'' 3 start)) = 3 \<and>
   new_events start (snd (geocode_address (\<lambda>n a. Not_found) ''Atlantis'' 3 start)) =
     [Lookup ''Atlantis'', Sleep 1, Lookup ''Atlantis'', Sleep 1, Lookup ''Atlantis'', Sleep 1]"
  using not_found_uses_retry_budget [of 3 "\<lambda>n a. Not_found" start "''Atlantis''"]
  by (simp add: start_def numeral_3_eq_3)

section \<open>One iteration of the batch loop\<close>


lemma loop_keep:
  "geocode_address g (address b) 3 w = (Inr (lat, lon), w') \<Longrightarrow> truthy lat \<Longrightarrow> truthy lon \<Longrightarrow>
   geocode_branches_loop g (b # bs) acc w =
     geocode_branches_loop g bs (acc @ [enrich b lat lon])
       (advance 0 [Print (Found (name b)), Sleep 1] w')"
  by (simp add: sleep_advance emit_advance advance_advance)

lemma loop_drop:
  "geocode_address g (address b) 3 w = (Inr (lat, lon), w') \<Longrightarrow> \<not> (truthy lat \<and> truthy lon) \<Longrightarrow>
   geocode_branches_loop g (b # bs) acc w =
     geocode_branches_loop g bs acc (advance 0 [Print (Branch_failed (address b)), Sleep 1] w')"
  by (auto simp add: sleep_advance emit_advance advance_advance)

section \<open>An address that always times out\<close>

lemma three_caught:
  assumes "\<forall>i<3. \<exists>e. g (calls w + i) a = Raises e \<and> caught e"
  shows "geocode_address g a 3 w =
     (Inr (None, None),
      advance 3 [Lookup a, Sleep 1, Lookup a, Sleep 2, Lookup a, Print (Failed_to_geocode a)] w)"
proof -
  have "geocode_attempts g a 3 0 w =
     (Inr (None, None),
      advance (nat 3) (backoff a 0 (nat 3 - 1) @ [Lookup a, Print (Failed_to_geocode a)]) w)"
    using assms by (intro all_caught_run) auto
  moreover have "backoff a 0 (nat 3 - 1) = [Lookup a, Sleep 1, Lookup a, Sleep 2]"
    by (simp add: backoff_def upt_rec)
  ultimately show ?thesis by (simp add: geocode_address_def)
qed

text \<open>
  Claim C1, as the code has it. When the three lookups that \<open>geocode_address\<close> makes for
  an address (\<open>max_retries = 3\<close>) all raise a caught error, it makes exactly these three
  lookups, waits 1 after the first and 2 after the second, makes no wait after the third
  (the guard \<open>attempt < max_retries - 1\<close>), reports the failure and returns
  \<open>(None, None)\<close>. \<open>geocode_branches\<close> then adds nothing to the list it has built so far,
  keeps every entry already in it, makes its own pause of 1 and goes on with the remaining
  branches.
\<close>

theorem failing_address_dropped:
  assumes "\<forall>i<3. \<exists>e. g (calls w + i) (address b) = Raises e \<and> caught e"
  shows "geocode_address g (address b) 3 w =
           (Inr (None, None),
            advance 3 [Lookup (address b), Sleep 1, Lookup (address b), Sleep 2,
                       Lookup (address b), Print (Failed_to_geocode (address b))] w) \<and>
         geocode_branches_loop g (b # bs) branch_locations w =
           geocode_branches_loop g bs branch_locations
             (advance 3 [Lookup (address b), Sleep 1, Lookup (address b), Sleep 2,
                         Lookup (address b), Print (Failed_to_geocode (address b)),
                         Print (Branch_failed (address b)), Sleep 1] w)"
proof -
  let ?w = "advance 3 [Lookup (address b), Sleep 1, Lookup (address b), Sleep 2,
                       Lookup (address b), Print (Failed_to_geocode (address b))] w"
  have a: "geocode_address g (address b) 3 w = (Inr (None, None), ?w)"
    using assms by (rule three_caught)
  have "geocode_branches_loop g (b # bs) branch_locations w =
     geocode_branches_loop g bs branch_locations
       (advance 0 [Print (Branch_failed (address b)), Sleep 1] ?w)"
    using a by (rule loop_drop) simp
  with a show ?thesis by (simp add: advance_advance)
qed

text \<open>
  The batch of the Miami branch and a branch that always times out: the list returned is
  the Miami entry alone, and the delays are 1 (after Miami), 1, 2 (backoff) and 1.
\<close>

theorem failing_address_dropped_witness:
  "fst (geocode_branches miami_only [miami, nowhere] start) =
     Inr [enrich miami (Some 25.65) (Some (-80.43))] \<and>
   sleeps (events (snd (geocode_branches miami_only [miami, nowhere] start))) = [1, 1, 2, 1] \<and>
   lookups (events (snd (geocode_branches miami_only [miami, nowhere] start))) =
     [address miami, address nowhere, address nowhere, address nowhere]"
proof -
  let ?found = "[enrich miami (Some 25.65) (Some (-80.43))]"
  let ?w = "advance 1 [Lookup (address miami), Print (Found (name miami)), Sleep 1] start"
  let ?w' = "advance 3 [Lookup (address nowhere), Sleep 1, Lookup (address nowhere), Sleep 2,
      Lookup (address nowhere), Print (Failed_to_geocode (address nowhere)),
      Print (Branch_failed (address nowhere)), Sleep 1] ?w"
  have "geocode_address miami_only (address miami) 3 start =
      (Inr (Some 25.65, Some (-80.43)), advance 1 [Lookup (address miami)] start)"
    unfolding geocode_address_def
    by (rule attempts_located) (simp_all add: miami_only_def miami_def)
  then have "geocode_branches_loop miami_only [miami, nowhere] [] start =
      geocode_branches_loop miami_only [nowhere] ([] @ ?found)
        (advance 0 [Print (Found (name miami)), Sleep 1] (advance 1 [Lookup (address miami)] start))"
    by (rule loop_keep) simp_all
  then have first: "geocode_branches miami_only [miami, nowhere] start =
      geocode_branches_loop miami_only [nowhere] ?found ?w"
    by (simp only: geocode_branches_def advance_advance append_Nil append_Cons add_0_right)
  have "\<forall>i<3. \<exists>e. miami_only (calls ?w + i) (address nowhere) = Raises e \<and> caught e"
    by (simp add: miami_only_def nowhere_def)
  from failing_address_dropped [of miami_only ?w nowhere "[]" ?found, OF this]
  have "geocode_branches_loop miami_only [nowhere] ?found ?w =
      geocode_branches_loop miami_only [] ?found ?w'"
    by (rule conjunct2)
  with first have "geocode_branches miami_only [miami, nowhere] start = (Inr ?found, ?w')"
    by (simp only: geocode_branches_loop.simps)
  then show ?thesis
    by (simp add: events_advance start_def)
qed

text \<open>
  Claim C1 as stated fails: for an address that always times out the delays of
  \<open>geocode_address\<close> are 1 and 2, not 1, 2 and 4; with the pause of \<open>geocode_branches\<close>
  the delays of the batch are 1, 2 and 1.
\<close>

theorem delays_counterexample:
  "sleeps (new_events start (snd (geocode_address (\<lambda>n a. Raises GeocoderTimedOut) ''1 No Such Road'' 3 start)))
     = [1, 2] \<and>
   sleeps (new_events start (snd (geocode_address (\<lambda>n a. Raises GeocoderTimedOut) ''1 No Such Road'' 3 start)))
     \<noteq> [1, 2, 4] \<and>
   sleeps (new_events start (snd (geocode_branches (\<lambda>n a. Raises GeocoderTimedOut)
       [\<lparr>name = ''Nowhere'', address = ''1 No Such Road''\<rparr>] start))) = [1, 2, 1]"
proof -
  have "geocode_address (\<lambda>n a. Raises GeocoderTimedOut) ''1 No Such Road'' 3 start =
     (Inr (None, None),
      advance 3 [Lookup ''1 No Such Road'', Sleep 1, Lookup ''1 No Such Road'', Sleep 2,
        Lookup ''1 No Such Road'', Print (Failed_to_geocode ''1 No Such Road'')] start)"
    by (rule three_caught) simp
  then show ?thesis
    by (simp add: geocode_branches_def new_events_advance sleep_advance emit_advance advance_advance)
qed

section \<open>Errors that are caught and errors that are not\<close>







section \<open>The list returned by the batch\<close>

lemma loop_results:
  "fst (geocode_branches_loop g bs acc w) = Inr r \<Longrightarrow>
   map fst (geocoding_results g bs w) = bs \<and>
   r = acc @ map entry (filter kept (geocoding_results g bs w))"
proof (induction bs arbitrary: acc w)
  case Nil
  then show ?case by simp
next
  case (Cons b bs)
  show ?case
  proof (cases "geocode_address g (address b) 3 w")
    case (Pair res w')
    show ?thesis
    proof (cases res)
      case (Inl e)
      with Pair Cons.prems show ?thesis by simp
    next
      case (Inr c)
      obtain lat lon where c: "c = (lat, lon)" by (cases c)
      show ?thesis
      proof (cases "truthy lat \<and> truthy lon")
        case True
        let ?w = "sleep 1 (emit (Print (Found (name b))) w')"
        from Pair Inr c True Cons.prems
        have "fst (geocode_branches_loop g bs (acc @ [enrich b lat lon]) ?w) = Inr r" by simp
        from Cons.IH[OF this] Pair Inr c True show ?thesis
          by (simp add: kept_def entry_def)
      next
        case False
        let ?w = "sleep 1 (emit (Print (Branch_failed (address b))) w')"
        from Pair Inr c False Cons.prems
        have "fst (geocode_branches_loop g bs acc ?w) = Inr r" by auto
        from Cons.IH[OF this] Pair Inr c False show ?thesis
          by (auto simp add: kept_def entry_def)
      qed
    qed
  qed
qed

lemma branch_of_entry: "branch_of (entry (b, lat, lon)) = b"
  by (simp add: branch_of_def entry_def enrich_def)

lemma map_branch_of_entry: "map (branch_of \<circ> entry) rs = map fst rs"
  by (induction rs) (auto simp: branch_of_entry)

text \<open>
  Claim C5. Every entry of the list that \<open>geocode_branches\<close> returns has a latitude and a
  longitude that are not \<open>None\<close> (and not zero): the list has one entry for each branch
  whose coordinates passed the test and none for the others.
\<close>

theorem coordinates_never_null:
  assumes "fst (geocode_branches g branches w) = Inr r"
  shows "(\<forall>x\<in>set r. \<exists>lat lon. latitude x = Some lat \<and> longitude x = Some lon \<and>
                                lat \<noteq> 0 \<and> lon \<noteq> 0) \<and>
         (\<forall>x\<in>set r. latitude x \<noteq> None \<and> longitude x \<noteq> None) \<and>
         length r = length (filter kept (geocoding_results g branches w))"
proof -
  from assms have r: "r = map entry (filter kept (geocoding_results g branches w))"
    using loop_results[of g branches "[]" w r] by (simp add: geocode_branches_def)
  have "\<exists>lat lon. latitude x = Some lat \<and> longitude x = Some lon \<and> lat \<noteq> 0 \<and> lon \<noteq> 0"
    if "x \<in> set r" for x
  proof -
    from that r obtain b la lo where "x = entry (b, la, lo)" "kept (b, la, lo)" by auto
    then show ?thesis
      by (cases la; cases lo) (simp_all add: kept_def entry_def enrich_def)
  qed
  then have a: "\<forall>x\<in>set r. \<exists>lat lon. latitude x = Some lat \<and> longitude x = Some lon \<and>
                                lat \<noteq> 0 \<and> lon \<noteq> 0" by blast
  then have "\<forall>x\<in>set r. latitude x \<noteq> None \<and> longitude x \<noteq> None" by fastforce
  with a r show ?thesis by simp
qed

text \<open>
  Claim C10. In a run of \<open>geocode_branches\<close> that returns, every input branch is geocoded
  once, in the input order; the list returned is the entries of the branches kept, in
  that order, each with the name and address of its branch unchanged: the names and
  addresses of the list are a subsequence of the input.
\<close>

theorem order_and_fields_preserved:
  assumes "fst (geocode_branches g branches w) = Inr r"
  shows "map fst (geocoding_results g branches w) = branches \<and>
         r = map entry (filter kept (geocoding_results g branches w)) \<and>
         map branch_of r = map fst (filter kept (geocoding_results g branches w)) \<and>
         subseq (map branch_of r) branches"
proof -
  let ?rs = "geocoding_results g branches w"
  from assms have all: "map fst ?rs = branches" and r: "r = map entry (filter kept ?rs)"
    using loop_results[of g branches "[]" w r] by (simp_all add: geocode_branches_def)
  have b: "map branch_of r = map fst (filter kept ?rs)"
    using r map_branch_of_entry[of "filter kept ?rs"] by simp
  have "subseq (map fst (filter kept ?rs)) (map fst ?rs)"
    by (intro subseq_map subseq_filter_left)
  then have "subseq (map branch_of r) branches"
    by (simp only: b all)
  with all r b show ?thesis by blast
qed

text \<open>The batch of the Miami branch and a branch that always times out.\<close>

lemma miami_batch:
  "geocode_branches miami_only [miami, nowhere] start =
     (Inr [enrich miami (Some 25.65) (Some (-80.43))],
      advance 4 [Lookup (address miami), Print (Found (name miami)), Sleep 1,
        Lookup (address nowhere), Sleep 1, Lookup (address nowhere), Sleep 2,
        Lookup (address nowhere), Print (Failed_to_geocode (address nowhere)),
        Print (Branch_failed (address nowhere)), Sleep 1] start)"
proof -
  let ?found = "[enrich miami (Some 25.65) (Some (-80.43))]"
  let ?w = "advance 0 [Print (Found (name miami)), Sleep 1] (advance 1 [Lookup (address miami)] start)"
  let ?w' = "advance 3 [Lookup (address nowhere), Sleep 1, Lookup (address nowhere), Sleep 2,
      Lookup (address nowhere), Print (Failed_to_geocode (address nowhere))] ?w"
  have "geocode_address miami_only (address miami) 3 start =
      (Inr (Some 25.65, Some (-80.43)), advance 1 [Lookup (address miami)] start)"
    unfolding geocode_address_def
    by (rule attempts_located) (simp_all add: miami_only_def miami_def)
  then have "geocode_branches_loop miami_only [miami, nowhere] [] start =
      geocode_branches_loop miami_only [nowhere] ([] @ ?found) ?w"
    by (rule loop_keep) simp_all
  also have "\<dots> = geocode_branches_loop miami_only [] ([] @ ?found)
        (advance 0 [Print (Branch_failed (address nowhere)), Sleep 1] ?w')"
  proof (rule loop_drop)
    show "geocode_address miami_only (address nowhere) 3 ?w = (Inr (None, None), ?w')"
      by (rule three_caught) (simp add: miami_only_def nowhere_def)
  qed simp
  finally show ?thesis
    by (simp add: geocode_branches_def advance_advance)
qed

text \<open>In that batch the list returned is the Miami entry, with both coordinates set.\<close>

theorem coordinates_never_null_witness:
  "fst (geocode_branches miami_only [miami, nowhere] start) =
     Inr [enrich miami (Some 25.65) (Some (-80.43))] \<and>
   latitude (enrich miami (Some 25.65) (Some (-80.43))) \<noteq> None \<and>
   longitude (enrich miami (Some 25.65) (Some (-80.43))) \<noteq> None \<and>
   length (filter kept (geocoding_results miami_only [miami, nowhere] start)) = 1"
proof -
  have r: "fst (geocode_branches miami_only [miami, nowhere] start) =
     Inr [enrich miami (Some 25.65) (Some (-80.43))]"
    by (simp add: miami_batch)
  let ?e = "enrich miami (Some 25.65) (Some (-80.43))"
  note t = coordinates_never_null [OF r]
  from t have "\<forall>x\<in>set [?e]. latitude x \<noteq> None \<and> longitude x \<noteq> None" by blast
  then have "latitude ?e \<noteq> None \<and> longitude ?e \<noteq> None" by simp
  moreover from t
  have "length [?e] = length (filter kept (geocoding_results miami_only [miami, nowhere] start))"
    by blast
  then have "length (filter kept (geocoding_results miami_only [miami, nowhere] start)) = 1"
    by (simp del: geocoding_results.simps)
  ultimately show ?thesis using r by blast
qed

text \<open>In that batch both branches are geocoded and Miami alone is kept, unchanged.\<close>

theorem order_and_fields_preserved_witness:
  "fst (geocode_branches miami_only [miami, nowhere] start) =
     Inr [enrich miami (Some 25.65) (Some (-80.43))] \<and>
   map fst (geocoding_results miami_only [miami, nowhere] start) = [miami, nowhere] \<and>
   map fst (filter kept (geocoding_results miami_only [miami, nowhere] start)) = [miami] \<and>
   map branch_of [enrich miami (Some 25.65) (Some (-80.43))] = [miami] \<and>
   subseq [miami] [miami, nowhere]"
proof -
  have r: "fst (geocode_branches miami_only [miami, nowhere] start) =
     Inr [enrich miami (Some 25.65) (Some (-80.43))]"
    by (simp add: miami_batch)
  let ?e = "enrich miami (Some 25.65) (Some (-80.43))"
  note t = order_and_fields_preserved [OF r]
  have e: "map branch_of [?e] = [miami]"
    by (simp add: branch_of_def enrich_def miami_def)
  from t have "map fst (geocoding_results miami_only [miami, nowhere] start) = [miami, nowhere]"
    by blast
  moreover from t
  have "map branch_of [?e] = map fst (filter kept (geocoding_results miami_only [miami, nowhere] start))"
    by blast
  with e have "map fst (filter kept (geocoding_results miami_only [miami, nowhere] start)) = [miami]"
    by (simp only:)
  moreover from t have "subseq (map branch_of [?e]) [miami, nowhere]" by blast
  with e have "subseq [miami] [miami, nowhere]" by (simp only:)
  ultimately show ?thesis using r e by blast
qed

section \<open>A coordinate that is zero\<close>

text \<open>
  Claim C9. When \<open>geocode_address\<close> returns a pair of coordinates of which the latitude
  or the longitude is \<open>0.0\<close>, \<open>geocode_branches\<close> reports the branch as failed and adds
  nothing to the list: the test is the truthiness of each coordinate. A batch of that
  branch alone returns the empty list.
\<close>

theorem zero_coordinate_dropped:
  assumes "geocode_address g (address b) 3 w = (Inr (Some lat, Some lon), w')"
    and "lat = 0 \<or> lon = 0"
  shows "geocode_branches_loop g (b # bs) branch_locations w =
           geocode_branches_loop g bs branch_locations
             (sleep 1 (emit (Print (Branch_failed (address b))) w')) \<and>
         fst (geocode_branches g [b] w) = Inr []"
  using assms by (auto simp add: geocode_branches_def)

text \<open>The Miami branch located at latitude 0 is dropped.\<close>

theorem zero_coordinate_dropped_witness:
  "geocode_address zero_lat (address miami) 3 start =
     (Inr (Some 0, Some (-80.43)), lookup (address miami) start) \<and>
   geocode_branches_loop zero_lat [miami] [] start =
     (Inr [], sleep 1 (emit (Print (Branch_failed (address miami))) (lookup (address miami) start))) \<and>
   fst (geocode_branches zero_lat [miami] start) = Inr []"
proof -
  have a: "geocode_address zero_lat (address miami) 3 start =
     (Inr (Some 0, Some (-80.43)), lookup (address miami) start)"
    unfolding geocode_address_def lookup_advance
    by (rule attempts_located) (simp_all add: zero_lat_def)
  have "(0::real) = 0 \<or> (-80.43::real) = 0" by simp
  with a have "geocode_branches_loop zero_lat (miami # []) [] start =
           geocode_branches_loop zero_lat [] []
             (sleep 1 (emit (Print (Branch_failed (address miami))) (lookup (address miami) start))) \<and>
         fst (geocode_branches zero_lat [miami] start) = Inr []"
    by (rule zero_coordinate_dropped)
  then have "geocode_branches_loop zero_lat [miami] [] start =
     (Inr [], sleep 1 (emit (Print (Branch_failed (address miami))) (lookup (address miami) start))) \<and>
         fst (geocode_branches zero_lat [miami] start) = Inr []"
    by (simp only: geocode_branches_loop.simps(1))
  with a show ?thesis by blast
qed

section \<open>The orchestrator when nothing is geocoded\<close>

lemma rendering_advance:
  "filter rendering (events (advance k es w)) = filter rendering (events w) @ filter rendering es"
  by (simp add: events_advance)

lemma attempts_no_rendering:
  "filter rendering (events (snd (geocode_attempts g a R attempt w))) = filter rendering (events w)"
proof (induction g a R attempt w rule: geocode_attempts.induct)
  case (1 g addr max_retries attempt w)
  show ?case
  proof (cases "int attempt < max_retries")
    case False
    then show ?thesis by (simp add: attempts_done)
  next
    case True
    show ?thesis
    proof (cases "g (calls w) addr")
      case (Located lat lon)
      with True show ?thesis by (simp add: attempts_located rendering_advance)
    next
      case Not_found
      with True "1.IH"(1) show ?thesis
        by (subst geocode_attempts.simps)
          (simp add: lookup_advance sleep_advance advance_advance rendering_advance)
    next
      case (Raises e)
      show ?thesis
      proof (cases "caught e")
        case False
        with True Raises show ?thesis by (simp add: attempts_uncaught rendering_advance)
      next
        case c: True
        show ?thesis
        proof (cases "int attempt < max_retries - 1")
          case True
          show ?thesis
          proof (cases "time_sleep (2 ^ attempt) (lookup addr w)")
            case (Inl overflow)
            with True \<open>int attempt < max_retries\<close> Raises c show ?thesis
              by (subst geocode_attempts.simps) (simp add: lookup_advance rendering_advance)
          next
            case (Inr w')
            then have "w' = sleep (2 ^ attempt) (lookup addr w)"
              by (simp add: time_sleep_def split: if_splits)
            then have "filter rendering (events w') = filter rendering (events w)"
              by (simp add: lookup_advance sleep_advance advance_advance rendering_advance)
            with True \<open>int attempt < max_retries\<close> Raises c Inr "1.IH"(2) show ?thesis
              by (subst geocode_attempts.simps) simp
          qed
        next
          case False
          with \<open>int attempt < max_retries\<close> Raises c show ?thesis
            by (simp add: attempts_last rendering_advance)
        qed
      qed
    qed
  qed
qed

lemma loop_no_rendering:
  "filter rendering (events (snd (geocode_branches_loop g bs acc w))) = filter rendering (events w)"
proof (induction bs arbitrary: acc w)
  case Nil
  then show ?case by simp
next
  case (Cons b bs)
  obtain res w' where a: "geocode_address g (address b) 3 w = (res, w')"
    by (cases "geocode_address g (address b) 3 w")
  then have w': "filter rendering (events w') = filter rendering (events w)"
    using attempts_no_rendering[of g "address b" 3 0 w] by (simp add: geocode_address_def)
  show ?case
  proof (cases res)
    case (Inl e)
    with a w' show ?thesis by simp
  next
    case (Inr c)
    obtain lat lon where "c = (lat, lon)" by (cases c)
    with a Inr w' show ?thesis
      by (simp add: Cons.IH sleep_advance emit_advance advance_advance rendering_advance)
  qed
qed

text \<open>
  Claim C3, as the code has it. When the boundaries are loaded and \<open>geocode_branches\<close>
  returns the empty list, \<open>main\<close> prints
  \<open>ERROR: No branches were successfully geocoded!\<close> and returns at once: \<open>create_map\<close>
  and \<open>save\<close> are never invoked. The return is a normal one (\<open>Inr ()\<close>): no exception
  is raised.
\<close>

theorem no_branches_returns_before_rendering:
  assumes "download env = Inr florida_counties"
    and "fst (geocode_branches (geolocator env) get_fortiline_branches (emit Download w)) = Inr []"
  shows "fst (main env w) = Inr () \<and>
         snd (main env w) =
           emit (Print No_branches)
             (snd (geocode_branches (geolocator env) get_fortiline_branches (emit Download w))) \<and>
         filter rendering (events (snd (main env w))) = filter rendering (events w)"
proof -
  obtain w2 where g: "geocode_branches (geolocator env) get_fortiline_branches (emit Download w)
      = (Inr [], w2)"
    using assms(2) by (cases "geocode_branches (geolocator env) get_fortiline_branches (emit Download w)") auto
  then have m: "main env w = (Inr (), emit (Print No_branches) w2)"
    using assms(1) by (simp add: main_def main_try_def get_florida_counties_def)
  have "filter rendering (events w2) = filter rendering (events w)"
    using loop_no_rendering[of "geolocator env" get_fortiline_branches "[]" "emit Download w"] g
    by (simp add: geocode_branches_def emit_advance rendering_advance)
  with m g show ?thesis by (simp add: emit_advance rendering_advance)
qed

text \<open>Batches in which no address, or every address, is found.\<close>

lemma three_not_found:
  assumes "\<forall>i<3. g (calls w + i) a = Not_found"
  shows "geocode_address g a 3 w =
     (Inr (None, None),
      advance 3 [Lookup a, Sleep 1, Lookup a, Sleep 1, Lookup a, Sleep 1] w)"
proof -
  have "geocode_attempts g a 3 0 w =
      geocode_attempts g a 3 (0 + 3) (advance 3 (concat (replicate 3 [Lookup a, Sleep 1])) w)"
    using assms by (intro not_found_run) auto
  then show ?thesis
    by (simp add: geocode_address_def attempts_done numeral_3_eq_3)
qed

lemma unfound_batch:
  "(\<And>n a. g n a = Not_found) \<Longrightarrow> fst (geocode_branches_loop g bs acc w) = Inr acc"
proof (induction bs arbitrary: w)
  case Nil
  then show ?case by simp
next
  case (Cons b bs)
  have "geocode_address g (address b) 3 w =
     (Inr (None, None),
      advance 3 [Lookup (address b), Sleep 1, Lookup (address b), Sleep 1,
        Lookup (address b), Sleep 1] w)"
    by (rule three_not_found) (simp add: Cons.prems)
  then show ?case using Cons.IH[OF Cons.prems] by simp
qed

lemma found_batch:
  assumes "\<And>n a. g n a = Located lat lon" and "lat \<noteq> 0" and "lon \<noteq> 0"
  shows "fst (geocode_branches_loop g bs acc w) =
     Inr (acc @ map (\<lambda>b. enrich b (Some lat) (Some lon)) bs)"
proof (induction bs arbitrary: acc w)
  case Nil
  then show ?case by simp
next
  case (Cons b bs)
  have "geocode_address g (address b) 3 w =
      (Inr (Some lat, Some lon), advance 1 [Lookup (address b)] w)"
    unfolding geocode_address_def by (rule attempts_located) (simp_all add: assms(1))
  then show ?case using Cons.IH assms(2,3) by simp
qed

text \<open>
  Claim C3 as stated fails: when no address is found \<open>main\<close> ends by a normal return,
  the very outcome of a run in which every address is found and the map is written.
\<close>

theorem normal_return_counterexample:
  "fst (main unfound start) = Inr () \<and> fst (main found start) = Inr () \<and>
   fst (main unfound start) = fst (main found start)"
proof -
  have "fst (geocode_branches (geolocator unfound) get_fortiline_branches (emit Download start)) = Inr []"
    unfolding geocode_branches_def by (rule unfound_batch) (simp add: unfound_def)
  then have a: "fst (main unfound start) = Inr ()"
    by (cases "geocode_branches (geolocator unfound) get_fortiline_branches (emit Download start)")
      (simp add: main_def main_try_def get_florida_counties_def unfound_def)
  have "fst (geocode_branches (geolocator found) get_fortiline_branches (emit Download start)) =
      Inr ([] @ map (\<lambda>b. enrich b (Some 25.65) (Some (-80.43))) get_fortiline_branches)"
    unfolding geocode_branches_def by (rule found_batch) (simp_all add: found_def)
  moreover have "get_fortiline_branches \<noteq> []"
    by (simp add: get_fortiline_branches_def)
  ultimately have b: "fst (main found start) = Inr ()"
    by (cases "geocode_branches (geolocator found) get_fortiline_branches (emit Download start)")
      (simp add: main_def main_try_def get_florida_counties_def found_def create_map_def save_def)
  from a b show ?thesis by simp
qed

text \<open>The run in which no address is found, from the initial world.\<close>

theorem no_branches_returns_before_rendering_witness:
  "fst (main unfound start) = Inr () \<and>
   snd (main unfound start) =
     emit (Print No_branches)
       (snd (geocode_branches (geolocator unfound) get_fortiline_branches (emit Download start))) \<and>
   filter rendering (events (snd (main unfound start))) = []"
proof -
  have d: "download unfound = Inr [''Miami-Dade'', ''Broward'']"
    by (simp add: unfound_def)
  have g: "fst (geocode_branches (geolocator unfound) get_fortiline_branches (emit Download start)) = Inr []"
    unfolding geocode_branches_def by (rule unfound_batch) (simp add: unfound_def)
  note t = no_branches_returns_before_rendering [OF d g]
  have e: "filter rendering (events start) = []"
    by (simp add: start_def)
  from t have "filter rendering (events (snd (main unfound start))) =
      filter rendering (events start)"
    by blast
  with e have "filter rendering (events (snd (main unfound start))) = []"
    by (simp only:)
  with t show ?thesis by blast
qed

section \<open>Failure of the boundary download\<close>

text \<open>
  Claim C8. When the primary download fails, \<open>get_florida_counties\<close> raises and never
  returns boundaries: under \<open>except Exception\<close> the fallback raises
  \<open>Primary download method failed ...\<close> before using the alternative source, and that
  exception is raised again; an exception outside \<open>Exception\<close> is not caught at all. The
  exception leaves \<open>main\<close> too, which makes no lookup and renders nothing.
\<close>

theorem boundary_failure_is_fatal:
  assumes "download env = Inl e"
  shows "fst (get_florida_counties (download env) w) =
           Inl (if is_Exception e
                then PyException ''Primary download method failed. Please check your internet connection.''
                else e) \<and>
         (\<forall>c. fst (get_florida_counties (download env) w) \<noteq> Inr c) \<and>
         fst (main env w) =
           Inl (if is_Exception e
                then PyException ''Primary download method failed. Please check your internet connection.''
                else e) \<and>
         new_events w (snd (main env w)) =
           (if is_Exception e
            then [Download, Print Error_downloading, Print Alternative_failed, Print Error_banner]
            else [Download])"
  using assms
  by (simp add: get_florida_counties_def main_def main_try_def emit_advance advance_advance
      new_events_advance)

text \<open>A connection error during the download.\<close>

theorem boundary_failure_is_fatal_witness:
  "fst (get_florida_counties (download offline) start) =
     Inl (PyException ''Primary download method failed. Please check your internet connection.'') \<and>
   fst (main offline start) =
     Inl (PyException ''Primary download method failed. Please check your internet connection.'') \<and>
   new_events start (snd (main offline start)) =
     [Download, Print Error_downloading, Print Alternative_failed, Print Error_banner]"
proof -
  have d: "download offline = Inl (PyException ''ConnectionError'')"
    by (simp add: offline_def)
  from boundary_failure_is_fatal [OF d, of start] show ?thesis by simp
qed

end
